theory Spec2Isabelle
  imports Complex_Main
begin

section \<open>JavaScript numbers\<close>

text \<open>
  A Number is NaN, an infinity or a finite double. A finite double is a rational, so
  \<open>Fin\<close> carries a \<open>rat\<close>; the order comparisons of two doubles are exact, and
  \<open>-0\<close> compares equal to \<open>0\<close>, so one zero is enough for them.
\<close>

datatype jsnum = NaN | NInf | Fin rat | PInf

definition isNaN :: "jsnum \<Rightarrow> bool" where
  "isNaN x = (x = NaN)"

text \<open>Less-than: false as soon as one operand is NaN.\<close>

fun js_lt :: "jsnum \<Rightarrow> jsnum \<Rightarrow> bool" where
  "js_lt NaN _ = False"
| "js_lt _ NaN = False"
| "js_lt (Fin a) (Fin b) = (a < b)"
| "js_lt NInf NInf = False"
| "js_lt NInf _ = True"
| "js_lt _ NInf = False"
| "js_lt PInf _ = False"
| "js_lt _ PInf = True"

definition js_gt :: "jsnum \<Rightarrow> jsnum \<Rightarrow> bool" where
  "js_gt a b = js_lt b a"

text \<open>Greater-or-equal and less-or-equal: false on NaN, otherwise the negation of the strict test.\<close>

definition js_ge :: "jsnum \<Rightarrow> jsnum \<Rightarrow> bool" where
  "js_ge a b = (a \<noteq> NaN \<and> b \<noteq> NaN \<and> \<not> js_lt a b)"

definition js_le :: "jsnum \<Rightarrow> jsnum \<Rightarrow> bool" where
  "js_le a b = (a \<noteq> NaN \<and> b \<noteq> NaN \<and> \<not> js_lt b a)"

subsection \<open>Rounding a rational to the nearest double\<close>

definition pow2 :: "int \<Rightarrow> rat" where
  "pow2 k = (if 0 \<le> k then 2 ^ nat k else 1 / 2 ^ nat (- k))"

function bit_length :: "int \<Rightarrow> int" where
  "bit_length n = (if n \<le> 0 then 0 else 1 + bit_length (n div 2))"
  by pat_completeness auto
termination
  by (relation "measure nat") auto

declare bit_length.simps [simp del]

text \<open>For \<open>q > 0\<close>, the \<open>e\<close> with \<open>2 ^ e \<le> q < 2 ^ (e + 1)\<close>.\<close>

definition floor_log2 :: "rat \<Rightarrow> int" where
  "floor_log2 q =
     (let (a, b) = quotient_of q;
          e = bit_length a - bit_length b
      in if pow2 e \<le> q then e else e - 1)"

definition round_half_even :: "rat \<Rightarrow> int" where
  "round_half_even m =
     (let f = \<lfloor>m\<rfloor>; d = m - of_int f
      in if d < 1 / 2 then f
         else if 1 / 2 < d then f + 1
         else if even f then f else f + 1)"

text \<open>
  IEEE 754 binary64, round to nearest, ties to even: 53 significant bits, exponents from
  \<open>-1022\<close> (below it the spacing stays \<open>2 ^ -1074\<close>: subnormals, then zero) to \<open>1023\<close>
  (above it the result is an infinity).
\<close>

definition to_double :: "rat \<Rightarrow> jsnum" where
  "to_double q =
     (if q = 0 then Fin 0
      else let a = \<bar>q\<bar>;
               e = max (floor_log2 a) (- 1022);
               ulp = pow2 (e - 52);
               n = round_half_even (a / ulp)
           in if 1023 < e \<or> (e = 1023 \<and> 9007199254740992 \<le> n)
              then (if 0 < q then PInf else NInf)
              else Fin (if 0 < q then of_int n * ulp else - (of_int n * ulp)))"

subsection \<open>Division, multiplication, \<open>Math.round\<close>\<close>

text \<open>
  The zero of this model is \<open>+0\<close>; the only divisor of the program, a length times three,
  is never \<open>-0\<close>.
\<close>

fun js_div :: "jsnum \<Rightarrow> jsnum \<Rightarrow> jsnum" where
  "js_div NaN _ = NaN"
| "js_div _ NaN = NaN"
| "js_div (Fin a) (Fin b) =
     (if b = 0 then (if a = 0 then NaN else if 0 < a then PInf else NInf)
      else to_double (a / b))"
| "js_div (Fin a) _ = Fin 0"
| "js_div PInf (Fin b) = (if 0 \<le> b then PInf else NInf)"
| "js_div NInf (Fin b) = (if 0 \<le> b then NInf else PInf)"
| "js_div _ _ = NaN"

fun js_mul :: "jsnum \<Rightarrow> jsnum \<Rightarrow> jsnum" where
  "js_mul NaN _ = NaN"
| "js_mul _ NaN = NaN"
| "js_mul (Fin a) (Fin b) = to_double (a * b)"
| "js_mul (Fin a) PInf = (if a = 0 then NaN else if 0 < a then PInf else NInf)"
| "js_mul (Fin a) NInf = (if a = 0 then NaN else if 0 < a then NInf else PInf)"
| "js_mul PInf (Fin b) = (if b = 0 then NaN else if 0 < b then PInf else NInf)"
| "js_mul NInf (Fin b) = (if b = 0 then NaN else if 0 < b then NInf else PInf)"
| "js_mul PInf PInf = PInf"
| "js_mul NInf NInf = PInf"
| "js_mul _ _ = NInf"

text \<open>\<open>Math.round\<close>: the nearest integer, a tie going up; NaN and the infinities stay.\<close>

fun Math_round :: "jsnum \<Rightarrow> jsnum" where
  "Math_round (Fin x) = Fin (of_int \<lfloor>x + 1 / 2\<rfloor>)"
| "Math_round x = x"

section \<open>JavaScript values and \<open>parseFloat\<close>\<close>

text \<open>
  The scalar values a JSON body or a stored document gives a field; \<open>JUndefined\<close> is an
  absent field. Strings are sequences of Latin-1 code units.
\<close>

datatype jsval = JUndefined | JNull | JBool bool | JNum jsnum | JStr string

definition isWhiteSpace :: "char \<Rightarrow> bool" where
  "isWhiteSpace c = (of_char c \<in> {9, 10, 11, 12, 13, 32, 160 :: int})"

definition isDigit :: "char \<Rightarrow> bool" where
  "isDigit c = (48 \<le> (of_char c :: int) \<and> (of_char c :: int) \<le> 57)"

definition digitsValue :: "string \<Rightarrow> int" where
  "digitsValue ds = foldl (\<lambda>a c. 10 * a + (of_char c - 48)) 0 ds"

definition pow10 :: "int \<Rightarrow> rat" where
  "pow10 k = (if 0 \<le> k then 10 ^ nat k else 1 / 10 ^ nat (- k))"

text \<open>
  The value of an exponent part at the head of \<open>s\<close>: \<open>e\<close> or \<open>E\<close>, an optional sign, digits.
  Without a digit there is no exponent part, and the value is \<open>0\<close>.
\<close>

definition exponentPart :: "string \<Rightarrow> int" where
  "exponentPart s =
     (case s of
        [] \<Rightarrow> 0
      | c # r \<Rightarrow>
          if c = CHR ''e'' \<or> c = CHR ''E'' then
            (case r of
               [] \<Rightarrow> 0
             | d # r' \<Rightarrow>
                 if d = CHR ''-'' then - digitsValue (takeWhile isDigit r')
                 else if d = CHR ''+'' then digitsValue (takeWhile isDigit r')
                 else digitsValue (takeWhile isDigit r))
          else 0)"

text \<open>
  \<open>parseFloat\<close> on a string: leading white space is dropped, then the longest prefix that
  is a decimal literal (sign, \<open>Infinity\<close>, or digits with an optional fraction and
  exponent) is read and rounded to a double; without such a prefix the result is NaN.
\<close>

definition parseFloat_string :: "string \<Rightarrow> jsnum" where
  "parseFloat_string s =
     (let t = dropWhile isWhiteSpace s;
          neg = (case t of [] \<Rightarrow> False | c # _ \<Rightarrow> c = CHR ''-'');
          u = (case t of [] \<Rightarrow> [] | c # r \<Rightarrow> if c = CHR ''+'' \<or> c = CHR ''-'' then r else t)
      in if take 8 u = ''Infinity'' then (if neg then NInf else PInf)
         else
           let ip = takeWhile isDigit u;
               r1 = dropWhile isDigit u;
               fp = (case r1 of [] \<Rightarrow> [] | c # r \<Rightarrow> if c = CHR ''.'' then takeWhile isDigit r else []);
               r2 = (case r1 of [] \<Rightarrow> [] | c # r \<Rightarrow> if c = CHR ''.'' then dropWhile isDigit r else r1)
           in if ip = [] \<and> fp = [] then NaN
              else
                let m = of_int (digitsValue (ip @ fp)) * pow10 (exponentPart r2 - int (length fp))
                in to_double (if neg then - m else m))"

text \<open>
  \<open>parseFloat\<close> converts its argument to a string first. A Number prints as the shortest
  decimal that reads back as the same Number (\<open>NaN\<close> and \<open>Infinity\<close> under these names);
  \<open>undefined\<close>, \<open>null\<close>, \<open>true\<close> and \<open>false\<close> print as words that are no literal.
\<close>

fun parseFloat :: "jsval \<Rightarrow> jsnum" where
  "parseFloat (JStr s) = parseFloat_string s"
| "parseFloat (JNum x) = x"
| "parseFloat _ = NaN"

text \<open>\<open>String.prototype.toLowerCase\<close> on Latin-1 code units.\<close>

definition lower_char :: "char \<Rightarrow> char" where
  "lower_char c =
     (let n = (of_char c :: int)
      in if (65 \<le> n \<and> n \<le> 90) \<or> (192 \<le> n \<and> n \<le> 222 \<and> n \<noteq> 215) then char_of (n + 32) else c)"

definition toLowerCase :: "string \<Rightarrow> string" where
  "toLowerCase s = map lower_char s"

section \<open>Data model of the report service\<close>

text \<open>
  A reference range holds \<open>normal\<close>, \<open>male\<close> and \<open>female\<close> bounds. The source only tests
  them for truthiness before reading \<open>min\<close> and \<open>max\<close>: \<open>None\<close> is a falsy field (absent,
  \<open>null\<close>), \<open>Some r\<close> a truthy one, whose \<open>min\<close> and \<open>max\<close> are \<open>JUndefined\<close> when the value
  has no such field (an empty object, or a string such as the \<open>normal: String\<close> of the
  stored report schema).
\<close>

record range =
  range_min :: jsval
  range_max :: jsval

record referenceRange =
  normal :: "range option"
  male :: "range option"
  female :: "range option"

record patient =
  age :: jsval
  gender :: "string option"

datatype status = Normal | High | Low | Unknown | TextResult

datatype severity = SevNormal | SevAbnormal | SevCritical

text \<open>
  One entry of \<open>results\<close>, and the object \<open>analyzeSingleResult\<close> builds from it. The
  functions are read on this data model: \<open>parameter\<close> is a string, as the report schema
  requires (the source calls \<open>toLowerCase\<close> on it), and the patient is the populated patient
  document, whose \<open>gender\<close> may be absent. The statuses and the severities are the string
  constants the source returns.
\<close>

record resultInput =
  parameter :: string
  val :: jsval
  unit :: jsval
  referenceRange :: "referenceRange option"

record analyzedResult = resultInput +
  status :: status
  explanation :: string
  severity :: severity
  clinicalSignificance :: string

record criticalValue =
  cv_parameter :: string
  cv_value :: jsval
  concern :: string
  urgency :: string

section \<open>The report service\<close>

subsection \<open>\<open>determineResultStatus\<close>\<close>

definition determineResultStatus :: "jsval \<Rightarrow> referenceRange option \<Rightarrow> patient \<Rightarrow> status" where
  "determineResultStatus v refRange pat =
     (case refRange of
        None \<Rightarrow> Unknown
      | Some rr \<Rightarrow>
          (case normal rr of
             None \<Rightarrow> Unknown
           | Some nr \<Rightarrow>
               let numericValue = parseFloat v
               in if isNaN numericValue then TextResult
                  else
                    let range =
                          (case (if gender pat = Some ''male'' then male rr else None) of
                             Some m \<Rightarrow> m
                           | None \<Rightarrow>
                               (case (if gender pat = Some ''female'' then female rr else None) of
                                  Some f \<Rightarrow> f
                                | None \<Rightarrow> nr));
                        minValue = parseFloat (range_min range);
                        maxValue = parseFloat (range_max range)
                    in if js_lt numericValue minValue then Low
                       else if js_gt numericValue maxValue then High
                       else Normal))"

subsection \<open>\<open>determineSeverity\<close>\<close>

text \<open>
  The threshold table is an object literal, so a key it does not own is looked up in
  \<open>Object.prototype\<close>. What is found there is truthy and has neither \<open>high\<close> nor \<open>low\<close>:
  both read \<open>undefined\<close>, which a comparison converts to NaN.
\<close>

record threshold =
  high :: jsnum
  low :: jsnum

definition objectPrototypeKeys :: "string list" where
  "objectPrototypeKeys =
     [''constructor'', ''__defineGetter__'', ''__defineSetter__'', ''hasOwnProperty'',
      ''__lookupGetter__'', ''__lookupSetter__'', ''isPrototypeOf'', ''propertyIsEnumerable'',
      ''toString'', ''valueOf'', ''__proto__'', ''toLocaleString'']"

definition criticalThresholds :: "(string \<times> threshold) list" where
  "criticalThresholds =
     [(''glucose'', \<lparr>high = Fin 400, low = Fin 40\<rparr>),
      (''creatinine'', \<lparr>high = Fin 5, low = Fin 0\<rparr>),
      (''hemoglobin'', \<lparr>high = Fin 20, low = Fin 7\<rparr>),
      (''platelets'', \<lparr>high = Fin 1000, low = Fin 50\<rparr>),
      (''potassium'', \<lparr>high = Fin 6, low = Fin (5 / 2)\<rparr>),
      (''sodium'', \<lparr>high = Fin 155, low = Fin 125\<rparr>)]"

definition thresholdLookup :: "string \<Rightarrow> threshold option" where
  "thresholdLookup k =
     (case map_of criticalThresholds k of
        Some t \<Rightarrow> Some t
      | None \<Rightarrow> if k \<in> set objectPrototypeKeys then Some \<lparr>high = NaN, low = NaN\<rparr> else None)"

definition determineSeverity :: "string \<Rightarrow> jsval \<Rightarrow> status \<Rightarrow> severity" where
  "determineSeverity param v st =
     (if st = Normal then SevNormal
      else
        let numericValue = parseFloat v
        in case thresholdLookup (toLowerCase param) of
             Some t \<Rightarrow>
               if \<not> isNaN numericValue \<and>
                  ((st = High \<and> js_ge numericValue (high t)) \<or> (st = Low \<and> js_le numericValue (low t)))
               then SevCritical
               else (if st = Normal then SevNormal else SevAbnormal)
           | None \<Rightarrow> (if st = Normal then SevNormal else SevAbnormal))"

subsection \<open>\<open>getClinicalSignificance\<close>\<close>

text \<open>
  The same kind of object, two levels deep: an entry owns the keys \<open>high\<close> and \<open>low\<close>, and
  neither an entry nor what \<open>Object.prototype\<close> supplies for a foreign key has a property
  named after one of the five statuses. An empty sentence would be falsy and give the
  fallback as well.
\<close>

definition significance :: "(string \<times> (status \<times> string) list) list" where
  "significance =
     [(''glucose'',
         [(High, ''May indicate diabetes or prediabetes''),
          (Low, ''May indicate hypoglycemia'')]),
      (''cholesterol'',
         [(High, ''Increased risk of heart disease''),
          (Low, ''Generally not concerning'')]),
      (''hemoglobin'',
         [(High, ''May indicate dehydration or blood disorders''),
          (Low, ''May indicate anemia'')])]"

definition significanceLookup :: "string \<Rightarrow> (status \<times> string) list option" where
  "significanceLookup k =
     (case map_of significance k of
        Some e \<Rightarrow> Some e
      | None \<Rightarrow> if k \<in> set objectPrototypeKeys then Some [] else None)"

definition getClinicalSignificance :: "string \<Rightarrow> status \<Rightarrow> string" where
  "getClinicalSignificance param st =
     (case significanceLookup (toLowerCase param) of
        None \<Rightarrow> ''Consult your healthcare provider for interpretation''
      | Some e \<Rightarrow>
          (case map_of e st of
             None \<Rightarrow> ''Consult your healthcare provider for interpretation''
           | Some s \<Rightarrow>
               if s = [] then ''Consult your healthcare provider for interpretation'' else s))"

subsection \<open>\<open>analyzeSingleResult\<close>\<close>

text \<open>
  The explanation comes from a completion service, or from a template when the service
  fails; \<open>explain\<close> stands for \<open>generateResultExplanation\<close> as a whole.
\<close>

definition analyzeSingleResult ::
  "(string \<Rightarrow> jsval \<Rightarrow> jsval \<Rightarrow> status \<Rightarrow> patient \<Rightarrow> string) \<Rightarrow> resultInput \<Rightarrow> patient \<Rightarrow> analyzedResult" where
  "analyzeSingleResult explain result pat =
     (let st = determineResultStatus (val result) (referenceRange result) pat
      in \<lparr>parameter = parameter result,
          val = val result,
          unit = unit result,
          referenceRange = referenceRange result,
          status = st,
          explanation = explain (parameter result) (val result) (unit result) st pat,
          severity = determineSeverity (parameter result) (val result) st,
          clinicalSignificance = getClinicalSignificance (parameter result) st\<rparr>)"

subsection \<open>\<open>identifyCriticalValues\<close>\<close>

definition identifyCriticalValues :: "analyzedResult list \<Rightarrow> criticalValue list" where
  "identifyCriticalValues analyzedResults =
     map (\<lambda>result.
            \<lparr>cv_parameter = parameter result,
             cv_value = val result,
             concern = explanation result,
             urgency = ''immediate_attention_required''\<rparr>)
         (filter (\<lambda>result. severity result = SevCritical) analyzedResults)"

subsection \<open>\<open>calculateRiskScore\<close>\<close>

text \<open>
  The score and the length are integers far below \<open>2 ^ 53\<close> (an array has fewer than
  \<open>2 ^ 32\<close> elements), so the sum and the product by three are exact; the division and the
  product by \<open>100\<close> round to a double.
\<close>

definition scoreStep :: "int \<Rightarrow> analyzedResult \<Rightarrow> int" where
  "scoreStep score result =
     (case severity result of
        SevCritical \<Rightarrow> score + 3
      | SevAbnormal \<Rightarrow> score + 1
      | SevNormal \<Rightarrow> score + 0)"

definition calculateRiskScore :: "analyzedResult list \<Rightarrow> jsnum" where
  "calculateRiskScore analyzedResults =
     (let score = foldl scoreStep 0 analyzedResults;
          maxPossibleScore = int (length analyzedResults) * 3
      in Math_round (js_mul (js_div (Fin (of_int score)) (Fin (of_int maxPossibleScore))) (Fin 100)))"

subsection \<open>\<open>generateRecommendations\<close>\<close>

definition generateRecommendations :: "analyzedResult list \<Rightarrow> string list" where
  "generateRecommendations analyzedResults =
     (let abnormalResults = filter (\<lambda>r. status r \<noteq> Normal) analyzedResults
      in if length abnormalResults = 0
         then [''Continue regular health checkups'',
               ''Maintain healthy lifestyle'',
               ''Follow up as recommended by your doctor'']
         else [''Discuss results with your healthcare provider'',
               ''Follow any treatment recommendations'',
               ''Schedule follow-up testing if advised'',
               ''Monitor symptoms and report changes''])"

section \<open>Definitions in the words of the specification\<close>

text \<open>
  The active bound: the \<open>male\<close> override for a patient whose gender is \<open>male\<close> when the
  override exists, else the \<open>female\<close> override for a patient whose gender is \<open>female\<close>
  when that one exists, else the \<open>normal\<close> range.
\<close>

definition spec_activeBound :: "referenceRange \<Rightarrow> range \<Rightarrow> patient \<Rightarrow> range" where
  "spec_activeBound rr nr pat =
     (if gender pat = Some ''male'' \<and> male rr \<noteq> None then the (male rr)
      else if gender pat = Some ''female'' \<and> female rr \<noteq> None then the (female rr)
      else nr)"

text \<open>
  The comparison with a bound: strictly below \<open>min\<close> is \<open>low\<close>, strictly above \<open>max\<close> is
  \<open>high\<close>, anything else is \<open>normal\<close>.
\<close>

definition spec_compare :: "jsnum \<Rightarrow> range \<Rightarrow> status" where
  "spec_compare x b =
     (if js_lt x (parseFloat (range_min b)) then Low
      else if js_gt x (parseFloat (range_max b)) then High
      else Normal)"

text \<open>The critical thresholds of the specification: parameter, critical high, critical low.\<close>

definition spec_thresholdTable :: "(string \<times> rat \<times> rat) list" where
  "spec_thresholdTable =
     [(''glucose'', 400, 40),
      (''creatinine'', 5, 0),
      (''hemoglobin'', 20, 7),
      (''platelets'', 1000, 50),
      (''potassium'', 6, 5 / 2),
      (''sodium'', 155, 125)]"

section \<open>The number model at known values\<close>

text \<open>
  The double nearest to one tenth and to one third; an integer that needs 54 bits goes to
  the even neighbour; digits beyond the precision of a double do not change what is parsed.
\<close>

lemma to_double_examples:
  "to_double (1 / 10) = Fin (3602879701896397 / 36028797018963968) \<and>
   to_double (1 / 3) = Fin (6004799503160661 / 18014398509481984) \<and>
   to_double 9007199254740993 = Fin 9007199254740992 \<and>
   to_double (- 450) = Fin (- 450)"
  by code_simp

lemma parseFloat_examples:
  "parseFloat (JStr ''450'') = Fin 450 \<and>
   parseFloat (JStr ''  -12.5e1 mg'') = Fin (- 125) \<and>
   parseFloat (JStr ''.5'') = Fin (1 / 2) \<and>
   parseFloat (JStr ''5.'') = Fin 5 \<and>
   parseFloat (JStr ''7e'') = Fin 7 \<and>
   parseFloat (JStr ''0.1000000000000000001'') = parseFloat (JStr ''0.1'') \<and>
   parseFloat (JStr ''-Infinity'') = NInf \<and>
   parseFloat (JStr ''trace'') = NaN \<and>
   parseFloat (JStr ''.e3'') = NaN \<and>
   parseFloat (JStr []) = NaN \<and>
   parseFloat (JNum (Fin 70)) = Fin 70 \<and>
   parseFloat JNull = NaN"
  by code_simp

lemma toLowerCase_examples:
  "toLowerCase ''GluCose'' = ''glucose'' \<and> toLowerCase ''__proto__'' = ''__proto__''"
  by code_simp

section \<open>Result classification\<close>

text \<open>With a \<open>normal\<close> range and a value that parses, the status is decided by two comparisons.\<close>

lemma determineResultStatus_usable:
  assumes "normal rr = Some nr" and "parseFloat v \<noteq> NaN"
  shows "determineResultStatus v (Some rr) pat =
           (if js_lt (parseFloat v) (parseFloat (range_min (spec_activeBound rr nr pat))) then Low
            else if js_gt (parseFloat v) (parseFloat (range_max (spec_activeBound rr nr pat))) then High
            else Normal)"
  using assms
  by (auto simp: determineResultStatus_def spec_activeBound_def isNaN_def Let_def split: option.splits)

lemma js_lt_irrefl: "\<not> js_lt x x"
  by (cases x) simp_all

lemma js_lt_trans: "js_lt a b \<Longrightarrow> js_lt b c \<Longrightarrow> js_lt a c"
  by (cases a; cases b; cases c) simp_all

text \<open>
  C4. Malformed data gives a status, not a failure: without a reference range, or without its
  \<open>normal\<close> bound, the status is \<open>unknown\<close>, whatever the value and the patient are; with a
  \<open>normal\<close> bound and a value that \<open>parseFloat\<close> turns into NaN the status is \<open>text_result\<close>.
\<close>

theorem status_unknown_or_text:
  "determineResultStatus v None pat = Unknown \<and>
   (normal rr = None \<longrightarrow> determineResultStatus v (Some rr) pat = Unknown) \<and>
   (normal rr \<noteq> None \<and> parseFloat v = NaN \<longrightarrow> determineResultStatus v (Some rr) pat = TextResult)"
  by (auto simp: determineResultStatus_def isNaN_def)

theorem status_unknown_or_text_witness:
  "determineResultStatus (JStr ''trace'') None \<lparr>age = JUndefined, gender = None\<rparr> = Unknown \<and>
   normal \<lparr>normal = None, male = None, female = None\<rparr> = None \<and>
   determineResultStatus (JStr ''5.4'') (Some \<lparr>normal = None, male = None, female = None\<rparr>)
     \<lparr>age = JUndefined, gender = None\<rparr> = Unknown \<and>
   normal \<lparr>normal = Some \<lparr>range_min = JNum (Fin 0), range_max = JNum (Fin 1)\<rparr>, male = None, female = None\<rparr> \<noteq> None \<and>
   parseFloat (JStr ''trace'') = NaN \<and>
   determineResultStatus (JStr ''trace'')
     (Some \<lparr>normal = Some \<lparr>range_min = JNum (Fin 0), range_max = JNum (Fin 1)\<rparr>, male = None, female = None\<rparr>)
     \<lparr>age = JUndefined, gender = None\<rparr> = TextResult"
proof -
  let ?pat = "\<lparr>age = JUndefined, gender = None\<rparr>"
  let ?r0 = "\<lparr>normal = None, male = None, female = None\<rparr>"
  let ?r1 = "\<lparr>normal = Some \<lparr>range_min = JNum (Fin 0), range_max = JNum (Fin 1)\<rparr>, male = None, female = None\<rparr>"
  have pv: "parseFloat_string ''trace'' = NaN" by code_simp
  have a: "determineResultStatus (JStr ''trace'') None ?pat = Unknown"
    using status_unknown_or_text [of "JStr ''trace''" ?pat ?r0] by blast
  have b: "determineResultStatus (JStr ''5.4'') (Some ?r0) ?pat = Unknown"
    using status_unknown_or_text [of "JStr ''5.4''" ?pat ?r0] by simp
  have c: "determineResultStatus (JStr ''trace'') (Some ?r1) ?pat = TextResult"
    using status_unknown_or_text [of "JStr ''trace''" ?pat ?r1] by (simp add: pv)
  from a b c show ?thesis by (simp add: pv)
qed

text \<open>
  C1, amended. With a usable reference range and a value that parses, the status is \<open>low\<close>
  exactly when the value is below the active \<open>min\<close>; it is \<open>high\<close> exactly when the value is
  above the active \<open>max\<close> and not below \<open>min\<close>, since the test against \<open>min\<close> comes first;
  it is \<open>normal\<close> exactly when neither comparison holds. When the active range is not
  inverted (\<open>max\<close> is not below \<open>min\<close>), \<open>high\<close> is exactly "above \<open>max\<close>", and a value equal
  to \<open>min\<close> or to \<open>max\<close> is \<open>normal\<close>.
\<close>

theorem status_by_comparison:
  assumes "refRange = Some rr" and "normal rr = Some nr" and "parseFloat v \<noteq> NaN"
  shows "let x = parseFloat v;
             lo = parseFloat (range_min (spec_activeBound rr nr pat));
             hi = parseFloat (range_max (spec_activeBound rr nr pat));
             st = determineResultStatus v refRange pat
         in (st = Low \<longleftrightarrow> js_lt x lo) \<and>
            (st = High \<longleftrightarrow> js_gt x hi \<and> \<not> js_lt x lo) \<and>
            (st = Normal \<longleftrightarrow> \<not> js_lt x lo \<and> \<not> js_gt x hi) \<and>
            (\<not> js_lt hi lo \<longrightarrow> (st = High \<longleftrightarrow> js_gt x hi) \<and> (x = lo \<or> x = hi \<longrightarrow> st = Normal))"
proof -
  define x where "x = parseFloat v"
  define lo where "lo = parseFloat (range_min (spec_activeBound rr nr pat))"
  define hi where "hi = parseFloat (range_max (spec_activeBound rr nr pat))"
  define st where "st = determineResultStatus v refRange pat"
  have st: "st = (if js_lt x lo then Low else if js_gt x hi then High else Normal)"
    unfolding st_def x_def lo_def hi_def assms(1)
    by (rule determineResultStatus_usable [OF assms(2,3)])
  have inv: "\<not> (js_gt x hi \<and> js_lt x lo)" if "\<not> js_lt hi lo"
    using that js_lt_trans [of hi x lo] by (auto simp: js_gt_def)
  have a: "st = Low \<longleftrightarrow> js_lt x lo" by (simp add: st)
  have b: "st = High \<longleftrightarrow> js_gt x hi \<and> \<not> js_lt x lo" by (simp add: st)
  have c: "st = Normal \<longleftrightarrow> \<not> js_lt x lo \<and> \<not> js_gt x hi" by (simp add: st)
  have d: "st = High \<longleftrightarrow> js_gt x hi" if "\<not> js_lt hi lo"
    using inv [OF that] b by blast
  have e: "st = Normal" if "\<not> js_lt hi lo" and "x = lo \<or> x = hi"
  proof -
    from that(2) show ?thesis
    proof
      assume "x = lo"
      then have "\<not> js_lt x lo" by (simp add: js_lt_irrefl)
      moreover have "\<not> js_gt x hi" using that(1) \<open>x = lo\<close> by (simp add: js_gt_def)
      ultimately show ?thesis using c by blast
    next
      assume "x = hi"
      then have "\<not> js_gt x hi" by (simp add: js_gt_def js_lt_irrefl)
      moreover have "\<not> js_lt x lo" using that(1) \<open>x = hi\<close> by simp
      ultimately show ?thesis using c by blast
    qed
  qed
  from a b c d e show ?thesis
    unfolding Let_def x_def [symmetric] lo_def [symmetric] hi_def [symmetric] st_def [symmetric]
    by blast
qed

theorem status_by_comparison_witness:
  "normal \<lparr>normal = Some \<lparr>range_min = JNum (Fin 70), range_max = JNum (Fin 99)\<rparr>, male = None, female = None\<rparr>
     = Some \<lparr>range_min = JNum (Fin 70), range_max = JNum (Fin 99)\<rparr> \<and>
   parseFloat (JStr ''450'') \<noteq> NaN \<and>
   determineResultStatus (JStr ''450'')
     (Some \<lparr>normal = Some \<lparr>range_min = JNum (Fin 70), range_max = JNum (Fin 99)\<rparr>, male = None, female = None\<rparr>)
     \<lparr>age = JNum (Fin 45), gender = Some ''male''\<rparr> = High \<and>
   parseFloat (JStr ''99'') \<noteq> NaN \<and>
   determineResultStatus (JStr ''99'')
     (Some \<lparr>normal = Some \<lparr>range_min = JNum (Fin 70), range_max = JNum (Fin 99)\<rparr>, male = None, female = None\<rparr>)
     \<lparr>age = JNum (Fin 45), gender = Some ''male''\<rparr> = Normal \<and>
   parseFloat (JStr ''69.9'') \<noteq> NaN \<and>
   determineResultStatus (JStr ''69.9'')
     (Some \<lparr>normal = Some \<lparr>range_min = JNum (Fin 70), range_max = JNum (Fin 99)\<rparr>, male = None, female = None\<rparr>)
     \<lparr>age = JNum (Fin 45), gender = Some ''male''\<rparr> = Low"
proof -
  let ?nr = "\<lparr>range_min = JNum (Fin 70), range_max = JNum (Fin 99)\<rparr>"
  let ?rr = "\<lparr>normal = Some ?nr, male = None, female = None\<rparr>"
  let ?pat = "\<lparr>age = JNum (Fin 45), gender = Some ''male''\<rparr>"
  have h2: "normal ?rr = Some ?nr" by simp
  have pv: "parseFloat_string ''450'' = Fin 450" by code_simp
  have h3: "parseFloat (JStr ''450'') \<noteq> NaN" by (simp add: pv)
  have a: "determineResultStatus (JStr ''450'') (Some ?rr) ?pat = High"
    using status_by_comparison [OF refl h2 h3, of ?pat]
    by (simp add: Let_def spec_activeBound_def pv js_gt_def)
  have pw: "parseFloat_string ''99'' = Fin 99" by code_simp
  have k3: "parseFloat (JStr ''99'') \<noteq> NaN" by (simp add: pw)
  have b: "determineResultStatus (JStr ''99'') (Some ?rr) ?pat = Normal"
    using status_by_comparison [OF refl h2 k3, of ?pat]
    by (simp add: Let_def spec_activeBound_def pw js_gt_def)
  have pu: "parseFloat_string ''69.9'' = to_double (699 / 10)" by code_simp
  have pl: "js_lt (to_double (699 / 10)) (Fin 70)" by code_simp
  have l3: "parseFloat (JStr ''69.9'') \<noteq> NaN" using pl by (auto simp: pu)
  have c: "determineResultStatus (JStr ''69.9'') (Some ?rr) ?pat = Low"
    using status_by_comparison [OF refl h2 l3, of ?pat] pl
    by (simp add: Let_def spec_activeBound_def pu)
  from h2 h3 a k3 b l3 c show ?thesis by blast
qed

text \<open>
  C1 as stated fails on an inverted range: with \<open>min = 10\<close> and \<open>max = 5\<close> the value \<open>7\<close> is
  above \<open>max\<close>, and its status is \<open>low\<close>, not \<open>high\<close>.
\<close>

theorem status_inverted_range_counterexample:
  "parseFloat (JStr ''7'') \<noteq> NaN \<and>
   determineResultStatus (JStr ''7'')
     (Some \<lparr>normal = Some \<lparr>range_min = JNum (Fin 10), range_max = JNum (Fin 5)\<rparr>, male = None, female = None\<rparr>)
     \<lparr>age = JNum (Fin 45), gender = Some ''male''\<rparr> = Low \<and>
   \<not> (determineResultStatus (JStr ''7'')
         (Some \<lparr>normal = Some \<lparr>range_min = JNum (Fin 10), range_max = JNum (Fin 5)\<rparr>, male = None, female = None\<rparr>)
         \<lparr>age = JNum (Fin 45), gender = Some ''male''\<rparr> = High
       \<longleftrightarrow> js_gt (parseFloat (JStr ''7'')) (parseFloat (JNum (Fin 5))))"
  by code_simp

text \<open>
  C5, amended. A call whose reference range has a \<open>normal\<close> bound and whose value parses is
  decided by comparing the value with the active bound: the \<open>male\<close> override for a male
  patient when it exists, else the \<open>female\<close> override for a female patient when it exists,
  else the \<open>normal\<close> range. Without a \<open>normal\<close> bound the status is \<open>unknown\<close> even when an
  override exists, and a value that does not parse gives \<open>text_result\<close>. So a female
  patient's value inside the \<open>female\<close> range is \<open>normal\<close>, wherever the \<open>normal\<close> range lies.
\<close>

theorem active_bound_precedence:
  "determineResultStatus v refRange pat =
     (case refRange of
        None \<Rightarrow> Unknown
      | Some rr \<Rightarrow>
          (case normal rr of
             None \<Rightarrow> Unknown
           | Some nr \<Rightarrow>
               if parseFloat v = NaN then TextResult
               else spec_compare (parseFloat v) (spec_activeBound rr nr pat))) \<and>
   (normal rr = Some nr \<and> parseFloat v \<noteq> NaN \<and> gender pat = Some ''male'' \<and> male rr = Some mr
      \<longrightarrow> determineResultStatus v (Some rr) pat = spec_compare (parseFloat v) mr) \<and>
   (normal rr = Some nr \<and> parseFloat v \<noteq> NaN \<and> gender pat = Some ''female'' \<and> female rr = Some fr
      \<longrightarrow> determineResultStatus v (Some rr) pat = spec_compare (parseFloat v) fr) \<and>
   (normal rr = Some nr \<and> parseFloat v \<noteq> NaN \<and>
    \<not> (gender pat = Some ''male'' \<and> male rr \<noteq> None) \<and>
    \<not> (gender pat = Some ''female'' \<and> female rr \<noteq> None)
      \<longrightarrow> determineResultStatus v (Some rr) pat = spec_compare (parseFloat v) nr) \<and>
   (normal rr = Some nr \<and> parseFloat v \<noteq> NaN \<and> gender pat = Some ''female'' \<and> female rr = Some fr \<and>
    \<not> js_lt (parseFloat v) (parseFloat (range_min fr)) \<and>
    \<not> js_gt (parseFloat v) (parseFloat (range_max fr))
      \<longrightarrow> determineResultStatus v (Some rr) pat = Normal)"
proof -
  have u: "determineResultStatus v (Some rr) pat = spec_compare (parseFloat v) (spec_activeBound rr nr pat)"
    if "normal rr = Some nr" and "parseFloat v \<noteq> NaN" for rr nr
    using determineResultStatus_usable [OF that] by (simp add: spec_compare_def)
  have a: "determineResultStatus v refRange pat =
     (case refRange of
        None \<Rightarrow> Unknown
      | Some rr \<Rightarrow>
          (case normal rr of
             None \<Rightarrow> Unknown
           | Some nr \<Rightarrow>
               if parseFloat v = NaN then TextResult
               else spec_compare (parseFloat v) (spec_activeBound rr nr pat)))"
  proof (cases refRange)
    case None
    then show ?thesis by (simp add: determineResultStatus_def)
  next
    case (Some rr')
    show ?thesis
    proof (cases "normal rr'")
      case None
      then show ?thesis using Some by (simp add: determineResultStatus_def)
    next
      case nr: (Some nr')
      show ?thesis
      proof (cases "parseFloat v = NaN")
        case True
        then show ?thesis using Some nr by (simp add: determineResultStatus_def isNaN_def)
      next
        case False
        then show ?thesis using Some nr u [OF nr False] by simp
      qed
    qed
  qed
  have m: "determineResultStatus v (Some rr) pat = spec_compare (parseFloat v) mr"
    if "normal rr = Some nr" "parseFloat v \<noteq> NaN" "gender pat = Some ''male''" "male rr = Some mr"
    using u [OF that(1,2)] that(3,4) by (simp add: spec_activeBound_def)
  have f: "determineResultStatus v (Some rr) pat = spec_compare (parseFloat v) fr"
    if "normal rr = Some nr" "parseFloat v \<noteq> NaN" "gender pat = Some ''female''" "female rr = Some fr"
    using u [OF that(1,2)] that(3,4) by (simp add: spec_activeBound_def)
  have n: "determineResultStatus v (Some rr) pat = spec_compare (parseFloat v) nr"
    if "normal rr = Some nr" "parseFloat v \<noteq> NaN"
       "\<not> (gender pat = Some ''male'' \<and> male rr \<noteq> None)"
       "\<not> (gender pat = Some ''female'' \<and> female rr \<noteq> None)"
    using u [OF that(1,2)] that(3,4) by (auto simp: spec_activeBound_def)
  have c: "determineResultStatus v (Some rr) pat = Normal"
    if "normal rr = Some nr" "parseFloat v \<noteq> NaN" "gender pat = Some ''female''" "female rr = Some fr"
       "\<not> js_lt (parseFloat v) (parseFloat (range_min fr))"
       "\<not> js_gt (parseFloat v) (parseFloat (range_max fr))"
    using f [OF that(1-4)] that(5,6) by (simp add: spec_compare_def)
  from a m f n c show ?thesis by blast
qed

theorem active_bound_precedence_witness:
  "determineResultStatus (JStr ''17.5'')
     (Some \<lparr>normal = Some \<lparr>range_min = JNum (Fin 13), range_max = JNum (Fin 17)\<rparr>,
             male = Some \<lparr>range_min = JNum (Fin 14), range_max = JNum (Fin 18)\<rparr>,
             female = Some \<lparr>range_min = JNum (Fin 12), range_max = JNum (Fin 15)\<rparr>\<rparr>)
     \<lparr>age = JNum (Fin 30), gender = Some ''male''\<rparr> = Normal \<and>
   determineResultStatus (JStr ''13.5'')
     (Some \<lparr>normal = Some \<lparr>range_min = JNum (Fin 13), range_max = JNum (Fin 17)\<rparr>,
             male = Some \<lparr>range_min = JNum (Fin 14), range_max = JNum (Fin 18)\<rparr>,
             female = Some \<lparr>range_min = JNum (Fin 12), range_max = JNum (Fin 15)\<rparr>\<rparr>)
     \<lparr>age = JNum (Fin 30), gender = Some ''male''\<rparr> = Low \<and>
   determineResultStatus (JStr ''12.5'')
     (Some \<lparr>normal = Some \<lparr>range_min = JNum (Fin 13), range_max = JNum (Fin 17)\<rparr>,
             male = Some \<lparr>range_min = JNum (Fin 14), range_max = JNum (Fin 18)\<rparr>,
             female = Some \<lparr>range_min = JNum (Fin 12), range_max = JNum (Fin 15)\<rparr>\<rparr>)
     \<lparr>age = JNum (Fin 30), gender = Some ''female''\<rparr> = Normal \<and>
   determineResultStatus (JStr ''16'')
     (Some \<lparr>normal = Some \<lparr>range_min = JNum (Fin 13), range_max = JNum (Fin 17)\<rparr>,
             male = Some \<lparr>range_min = JNum (Fin 14), range_max = JNum (Fin 18)\<rparr>,
             female = Some \<lparr>range_min = JNum (Fin 12), range_max = JNum (Fin 15)\<rparr>\<rparr>)
     \<lparr>age = JNum (Fin 30), gender = Some ''female''\<rparr> = High \<and>
   determineResultStatus (JStr ''12.5'')
     (Some \<lparr>normal = Some \<lparr>range_min = JNum (Fin 13), range_max = JNum (Fin 17)\<rparr>,
             male = Some \<lparr>range_min = JNum (Fin 14), range_max = JNum (Fin 18)\<rparr>,
             female = Some \<lparr>range_min = JNum (Fin 12), range_max = JNum (Fin 15)\<rparr>\<rparr>)
     \<lparr>age = JNum (Fin 30), gender = None\<rparr> = Low"
proof -
  let ?nr = "\<lparr>range_min = JNum (Fin 13), range_max = JNum (Fin 17)\<rparr>"
  let ?mr = "\<lparr>range_min = JNum (Fin 14), range_max = JNum (Fin 18)\<rparr>"
  let ?fr = "\<lparr>range_min = JNum (Fin 12), range_max = JNum (Fin 15)\<rparr>"
  let ?rr = "\<lparr>normal = Some ?nr, male = Some ?mr, female = Some ?fr\<rparr>"
  let ?m = "\<lparr>age = JNum (Fin 30), gender = Some ''male''\<rparr>"
  let ?f = "\<lparr>age = JNum (Fin 30), gender = Some ''female''\<rparr>"
  let ?o = "\<lparr>age = JNum (Fin 30), gender = None\<rparr>"
  have p1: "parseFloat_string ''17.5'' = Fin (35 / 2)" by code_simp
  have p2: "parseFloat_string ''13.5'' = Fin (27 / 2)" by code_simp
  have p3: "parseFloat_string ''12.5'' = Fin (25 / 2)" by code_simp
  have p4: "parseFloat_string ''16'' = Fin 16" by code_simp
  note male_case = active_bound_precedence [THEN conjunct2, THEN conjunct1, rule_format]
  note female_case = active_bound_precedence [THEN conjunct2, THEN conjunct2, THEN conjunct1, rule_format]
  note normal_case = active_bound_precedence [THEN conjunct2, THEN conjunct2, THEN conjunct2, THEN conjunct1, rule_format]
  have a: "determineResultStatus (JStr ''17.5'') (Some ?rr) ?m = Normal"
    by (subst male_case [where nr = ?nr and mr = ?mr]) (simp_all add: p1 spec_compare_def js_gt_def)
  have b: "determineResultStatus (JStr ''13.5'') (Some ?rr) ?m = Low"
    by (subst male_case [where nr = ?nr and mr = ?mr]) (simp_all add: p2 spec_compare_def js_gt_def)
  have c: "determineResultStatus (JStr ''12.5'') (Some ?rr) ?f = Normal"
    by (subst female_case [where nr = ?nr and fr = ?fr]) (simp_all add: p3 spec_compare_def js_gt_def)
  have d: "determineResultStatus (JStr ''16'') (Some ?rr) ?f = High"
    by (subst female_case [where nr = ?nr and fr = ?fr]) (simp_all add: p4 spec_compare_def js_gt_def)
  have e: "determineResultStatus (JStr ''12.5'') (Some ?rr) ?o = Low"
    by (subst normal_case [where nr = ?nr]) (simp_all add: p3 spec_compare_def js_gt_def)
  from a b c d e show ?thesis by blast
qed

text \<open>
  C5 as stated, for every call, fails where the \<open>normal\<close> bound is absent: a male patient's
  value \<open>20\<close> is above the \<open>male\<close> override 14 to 18, which exists and is not used: the
  status is \<open>unknown\<close>.
\<close>

theorem override_without_normal_counterexample:
  "gender \<lparr>age = JNum (Fin 45), gender = Some ''male''\<rparr> = Some ''male'' \<and>
   male \<lparr>normal = None, male = Some \<lparr>range_min = JNum (Fin 14), range_max = JNum (Fin 18)\<rparr>, female = None\<rparr>
     = Some \<lparr>range_min = JNum (Fin 14), range_max = JNum (Fin 18)\<rparr> \<and>
   parseFloat (JStr ''20'') \<noteq> NaN \<and>
   spec_compare (parseFloat (JStr ''20'')) \<lparr>range_min = JNum (Fin 14), range_max = JNum (Fin 18)\<rparr> = High \<and>
   determineResultStatus (JStr ''20'')
     (Some \<lparr>normal = None, male = Some \<lparr>range_min = JNum (Fin 14), range_max = JNum (Fin 18)\<rparr>, female = None\<rparr>)
     \<lparr>age = JNum (Fin 45), gender = Some ''male''\<rparr> = Unknown"
  by code_simp

text \<open>
  C9. When the value parses and both bounds of the active range parse to NaN (an empty
  \<open>normal\<close> object, words in place of numbers), the status is \<open>normal\<close>: a comparison with NaN
  is false.
\<close>

theorem nan_bounds_normal:
  assumes "refRange = Some rr" and "normal rr = Some nr" and "parseFloat v \<noteq> NaN"
    and "parseFloat (range_min (spec_activeBound rr nr pat)) = NaN"
    and "parseFloat (range_max (spec_activeBound rr nr pat)) = NaN"
  shows "determineResultStatus v refRange pat = Normal"
  unfolding assms(1) determineResultStatus_usable [OF assms(2,3)]
  using assms(4,5) by (cases "parseFloat v") (simp_all add: js_gt_def)

theorem nan_bounds_normal_witness:
  "normal \<lparr>normal = Some \<lparr>range_min = JUndefined, range_max = JUndefined\<rparr>, male = None, female = None\<rparr>
     = Some \<lparr>range_min = JUndefined, range_max = JUndefined\<rparr> \<and>
   parseFloat (JStr ''9000'') \<noteq> NaN \<and>
   parseFloat JUndefined = NaN \<and>
   determineResultStatus (JStr ''9000'')
     (Some \<lparr>normal = Some \<lparr>range_min = JUndefined, range_max = JUndefined\<rparr>, male = None, female = None\<rparr>)
     \<lparr>age = JNum (Fin 30), gender = Some ''female''\<rparr> = Normal"
proof -
  let ?nr = "\<lparr>range_min = JUndefined, range_max = JUndefined\<rparr>"
  let ?rr = "\<lparr>normal = Some ?nr, male = None, female = None\<rparr>"
  let ?pat = "\<lparr>age = JNum (Fin 30), gender = Some ''female''\<rparr>"
  have h2: "normal ?rr = Some ?nr" by simp
  have pv: "parseFloat_string ''9000'' = Fin 9000" by code_simp
  have h3: "parseFloat (JStr ''9000'') \<noteq> NaN" by (simp add: pv)
  have h4: "parseFloat (range_min (spec_activeBound ?rr ?nr ?pat)) = NaN" by (simp add: spec_activeBound_def)
  have h5: "parseFloat (range_max (spec_activeBound ?rr ?nr ?pat)) = NaN" by (simp add: spec_activeBound_def)
  from nan_bounds_normal [OF refl h2 h3 h4 h5] h3 show ?thesis by simp
qed

section \<open>Severity\<close>

lemma thresholdLookup_eq:
  "thresholdLookup k =
     (case map_of spec_thresholdTable k of
        Some (hi, lo) \<Rightarrow> Some \<lparr>high = Fin hi, low = Fin lo\<rparr>
      | None \<Rightarrow> if k \<in> set objectPrototypeKeys then Some \<lparr>high = NaN, low = NaN\<rparr> else None)"
  by (simp add: spec_thresholdTable_def thresholdLookup_def criticalThresholds_def)

lemma table_distinct: "distinct (map fst spec_thresholdTable)"
  by (simp add: spec_thresholdTable_def)

lemma table_mem_iff:
  "(k, hi, lo) \<in> set spec_thresholdTable \<longleftrightarrow> map_of spec_thresholdTable k = Some (hi, lo)"
  using table_distinct by (metis map_of_SomeD map_of_is_SomeI)

text \<open>
  C2. A \<open>normal\<close> status has severity \<open>normal\<close>. Any other status has severity \<open>critical\<close>
  exactly when the lower-cased parameter has an entry in the table of critical thresholds,
  the value parses, and either the status is \<open>high\<close> and the value is at least the critical
  high, or the status is \<open>low\<close> and the value is at most the critical low; it has severity
  \<open>abnormal\<close> otherwise.
\<close>

theorem severity_classification:
  "determineSeverity param v st =
     (if st = Normal then SevNormal
      else if \<exists>hi lo. (toLowerCase param, hi, lo) \<in> set spec_thresholdTable \<and>
                parseFloat v \<noteq> NaN \<and>
                ((st = High \<and> js_ge (parseFloat v) (Fin hi)) \<or> (st = Low \<and> js_le (parseFloat v) (Fin lo)))
           then SevCritical
           else SevAbnormal)"
proof (cases "st = Normal")
  case True
  then show ?thesis by (simp add: determineSeverity_def)
next
  case nn: False
  show ?thesis
  proof (cases "map_of spec_thresholdTable (toLowerCase param)")
    case None
    then have no: "\<not> (\<exists>hi lo. (toLowerCase param, hi, lo) \<in> set spec_thresholdTable)"
      by (simp add: table_mem_iff)
    have "determineSeverity param v st = SevAbnormal"
      using nn None
      by (simp add: determineSeverity_def thresholdLookup_eq Let_def js_ge_def js_le_def)
    then show ?thesis using nn no by simp
  next
    case (Some p)
    obtain hi lo where p: "p = (hi, lo)" by (cases p)
    have u: "(toLowerCase param, hi', lo') \<in> set spec_thresholdTable \<longleftrightarrow> hi' = hi \<and> lo' = lo" for hi' lo'
      using Some p by (auto simp: table_mem_iff)
    have "determineSeverity param v st =
            (if parseFloat v \<noteq> NaN \<and>
                ((st = High \<and> js_ge (parseFloat v) (Fin hi)) \<or> (st = Low \<and> js_le (parseFloat v) (Fin lo)))
             then SevCritical else SevAbnormal)"
      using nn Some p
      by (simp add: determineSeverity_def thresholdLookup_eq Let_def isNaN_def)
    then show ?thesis using nn by (simp add: u)
  qed
qed

theorem severity_classification_witness:
  "determineSeverity ''Glucose'' (JStr ''450'') High = SevCritical \<and>
   determineSeverity ''glucose'' (JStr ''150'') High = SevAbnormal \<and>
   determineSeverity ''Potassium'' (JStr ''2.0'') Low = SevCritical \<and>
   determineSeverity ''constructor'' (JStr ''2.0'') Low = SevAbnormal \<and>
   determineSeverity ''sodium'' (JStr ''140'') Normal = SevNormal"
proof -
  have l1: "toLowerCase ''Glucose'' = ''glucose''" by code_simp
  have l2: "toLowerCase ''glucose'' = ''glucose''" by code_simp
  have l3: "toLowerCase ''Potassium'' = ''potassium''" by code_simp
  have l4: "toLowerCase ''constructor'' = ''constructor''" by code_simp
  have p1: "parseFloat_string ''450'' = Fin 450" by code_simp
  have p2: "parseFloat_string ''150'' = Fin 150" by code_simp
  have p3: "parseFloat_string ''2.0'' = Fin 2" by code_simp
  have a: "determineSeverity ''Glucose'' (JStr ''450'') High = SevCritical"
    unfolding severity_classification [of "''Glucose''" "JStr ''450''" High]
    by (simp add: l1 p1 spec_thresholdTable_def js_ge_def)
  have b: "determineSeverity ''glucose'' (JStr ''150'') High = SevAbnormal"
    unfolding severity_classification [of "''glucose''" "JStr ''150''" High]
    by (simp add: l2 p2 spec_thresholdTable_def js_ge_def)
  have "(toLowerCase ''Potassium'', 6, 5 / 2) \<in> set spec_thresholdTable \<and>
          parseFloat (JStr ''2.0'') \<noteq> NaN \<and> js_le (parseFloat (JStr ''2.0'')) (Fin (5 / 2))"
    by (simp add: l3 p3 spec_thresholdTable_def js_le_def)
  then have c: "determineSeverity ''Potassium'' (JStr ''2.0'') Low = SevCritical"
    unfolding severity_classification [of "''Potassium''" "JStr ''2.0''" Low]
    by auto
  have d: "determineSeverity ''constructor'' (JStr ''2.0'') Low = SevAbnormal"
    unfolding severity_classification [of "''constructor''" "JStr ''2.0''" Low]
    by (simp add: l4 p3 spec_thresholdTable_def js_le_def)
  have e: "determineSeverity ''sodium'' (JStr ''140'') Normal = SevNormal"
    unfolding severity_classification [of "''sodium''" "JStr ''140''" Normal]
    by simp
  from a b c d e show ?thesis by blast
qed

section \<open>Clinical significance\<close>

lemma significanceLookup_cases:
  "significanceLookup k = None \<or> significanceLookup k = Some [] \<or>
   (\<exists>e. (k, e) \<in> set significance \<and> significanceLookup k = Some e)"
  by (auto simp: significanceLookup_def significance_def)

lemma significance_entry:
  "(k, e) \<in> set significance \<Longrightarrow> significanceLookup k = Some e"
  by (auto simp: significanceLookup_def significance_def)

lemma significance_sentence:
  "(k, e) \<in> set significance \<Longrightarrow> (st, s) \<in> set e \<Longrightarrow> map_of e st = Some s \<and> s \<noteq> []"
  by (auto simp: significance_def)

lemma significance_no_sentence:
  "(k, e) \<in> set significance \<Longrightarrow> \<not> (\<exists>s. (st, s) \<in> set e) \<Longrightarrow> map_of e st = None"
  by (auto simp: significance_def)

text \<open>
  C8. The lookup always returns a string. It is the sentence of the table when the
  lower-cased parameter has an entry with a sentence for the status, and the fallback in
  every other case: in particular for the statuses \<open>normal\<close>, \<open>unknown\<close> and \<open>text_result\<close>.
  The table has entries for glucose, cholesterol and hemoglobin.
\<close>

theorem clinical_significance_total:
  "((toLowerCase param, e) \<in> set significance \<and> (st, s) \<in> set e
      \<longrightarrow> getClinicalSignificance param st = s) \<and>
   (\<not> (\<exists>e s. (toLowerCase param, e) \<in> set significance \<and> (st, s) \<in> set e)
      \<longrightarrow> getClinicalSignificance param st = ''Consult your healthcare provider for interpretation'') \<and>
   (st \<in> {Normal, Unknown, TextResult}
      \<longrightarrow> getClinicalSignificance param st = ''Consult your healthcare provider for interpretation'') \<and>
   {''glucose'', ''cholesterol'', ''hemoglobin''} \<subseteq> fst ` set significance"
proof -
  have a: "getClinicalSignificance param st = s"
    if "(toLowerCase param, e) \<in> set significance" and "(st, s) \<in> set e"
    using significance_entry [OF that(1)] significance_sentence [OF that]
    by (simp add: getClinicalSignificance_def)
  have b: "getClinicalSignificance param st = ''Consult your healthcare provider for interpretation''"
    if n: "\<not> (\<exists>e s. (toLowerCase param, e) \<in> set significance \<and> (st, s) \<in> set e)"
  proof -
    from significanceLookup_cases [of "toLowerCase param"] show ?thesis
    proof (elim disjE exE conjE)
      fix e assume m: "(toLowerCase param, e) \<in> set significance"
        and l: "significanceLookup (toLowerCase param) = Some e"
      from n m have "\<not> (\<exists>s. (st, s) \<in> set e)" by blast
      from significance_no_sentence [OF m this] l show ?thesis
        by (simp add: getClinicalSignificance_def)
    qed (simp_all add: getClinicalSignificance_def)
  qed
  have c: "\<not> (\<exists>e s. (k, e) \<in> set significance \<and> (st, s) \<in> set e)"
    if "st \<in> {Normal, Unknown, TextResult}" for k
    using that by (auto simp: significance_def)
  have d: "{''glucose'', ''cholesterol'', ''hemoglobin''} \<subseteq> fst ` set significance"
    by (simp add: significance_def)
  from a b c d show ?thesis by blast
qed

theorem clinical_significance_total_witness:
  "getClinicalSignificance ''Glucose'' High = ''May indicate diabetes or prediabetes'' \<and>
   getClinicalSignificance ''Hemoglobin'' Low = ''May indicate anemia'' \<and>
   getClinicalSignificance ''sodium'' High = ''Consult your healthcare provider for interpretation'' \<and>
   getClinicalSignificance ''glucose'' TextResult = ''Consult your healthcare provider for interpretation''"
proof -
  have l1: "toLowerCase ''Glucose'' = ''glucose''" by code_simp
  have l2: "toLowerCase ''Hemoglobin'' = ''hemoglobin''" by code_simp
  have l3: "toLowerCase ''sodium'' = ''sodium''" by code_simp
  have a: "getClinicalSignificance ''Glucose'' High = ''May indicate diabetes or prediabetes''"
    using clinical_significance_total
      [of "''Glucose''" "[(High, ''May indicate diabetes or prediabetes''), (Low, ''May indicate hypoglycemia'')]"
          High "''May indicate diabetes or prediabetes''"]
    by (simp add: l1 significance_def)
  have b: "getClinicalSignificance ''Hemoglobin'' Low = ''May indicate anemia''"
    using clinical_significance_total
      [of "''Hemoglobin''" "[(High, ''May indicate dehydration or blood disorders''), (Low, ''May indicate anemia'')]"
          Low "''May indicate anemia''"]
    by (simp add: l2 significance_def)
  have c: "getClinicalSignificance ''sodium'' High = ''Consult your healthcare provider for interpretation''"
    using clinical_significance_total [of "''sodium''" "[]" High "[]"]
    by (simp add: l3 significance_def)
  have d: "getClinicalSignificance ''glucose'' TextResult = ''Consult your healthcare provider for interpretation''"
    using clinical_significance_total [of "''glucose''" "[]" TextResult "[]"]
    by simp
  from a b c d show ?thesis by blast
qed

section \<open>Aggregation\<close>

text \<open>
  C6. The recommendations are one of two fixed lists: the first when every result has
  status \<open>normal\<close>, the second as soon as one result has another status.
\<close>

theorem recommendations_binary:
  "generateRecommendations rs =
     (if \<forall>r \<in> set rs. status r = Normal
      then [''Continue regular health checkups'',
            ''Maintain healthy lifestyle'',
            ''Follow up as recommended by your doctor'']
      else [''Discuss results with your healthcare provider'',
            ''Follow any treatment recommendations'',
            ''Schedule follow-up testing if advised'',
            ''Monitor symptoms and report changes''])"
  by (auto simp: generateRecommendations_def Let_def filter_empty_conv)

theorem recommendations_binary_witness:
  "status (analyzeSingleResult (\<lambda>p v u s q. [])
        \<lparr>parameter = ''hemoglobin'', val = JStr ''14'', unit = JStr ''g/dL'',
         referenceRange = Some \<lparr>normal = Some \<lparr>range_min = JNum (Fin 12), range_max = JNum (Fin 16)\<rparr>,
                                male = None, female = None\<rparr>\<rparr>
        \<lparr>age = JUndefined, gender = Some ''female''\<rparr>) = Normal \<and>
   generateRecommendations
     [analyzeSingleResult (\<lambda>p v u s q. [])
        \<lparr>parameter = ''hemoglobin'', val = JStr ''14'', unit = JStr ''g/dL'',
         referenceRange = Some \<lparr>normal = Some \<lparr>range_min = JNum (Fin 12), range_max = JNum (Fin 16)\<rparr>,
                                male = None, female = None\<rparr>\<rparr>
        \<lparr>age = JUndefined, gender = Some ''female''\<rparr>]
     = [''Continue regular health checkups'',
        ''Maintain healthy lifestyle'',
        ''Follow up as recommended by your doctor''] \<and>
   generateRecommendations
     [analyzeSingleResult (\<lambda>p v u s q. [])
        \<lparr>parameter = ''hemoglobin'', val = JStr ''14'', unit = JStr ''g/dL'',
         referenceRange = Some \<lparr>normal = Some \<lparr>range_min = JNum (Fin 12), range_max = JNum (Fin 16)\<rparr>,
                                male = None, female = None\<rparr>\<rparr>
        \<lparr>age = JUndefined, gender = Some ''female''\<rparr>,
      analyzeSingleResult (\<lambda>p v u s q. [])
        \<lparr>parameter = ''sodium'', val = JStr ''160'', unit = JStr ''mmol/L'',
         referenceRange = Some \<lparr>normal = Some \<lparr>range_min = JNum (Fin 135), range_max = JNum (Fin 145)\<rparr>,
                                male = None, female = None\<rparr>\<rparr>
        \<lparr>age = JUndefined, gender = Some ''female''\<rparr>]
     = [''Discuss results with your healthcare provider'',
        ''Follow any treatment recommendations'',
        ''Schedule follow-up testing if advised'',
        ''Monitor symptoms and report changes'']"
proof -
  let ?pat = "\<lparr>age = JUndefined, gender = Some ''female''\<rparr>"
  let ?h = "analyzeSingleResult (\<lambda>p v u s q. [])
        \<lparr>parameter = ''hemoglobin'', val = JStr ''14'', unit = JStr ''g/dL'',
         referenceRange = Some \<lparr>normal = Some \<lparr>range_min = JNum (Fin 12), range_max = JNum (Fin 16)\<rparr>,
                                male = None, female = None\<rparr>\<rparr> ?pat"
  let ?s = "analyzeSingleResult (\<lambda>p v u s q. [])
        \<lparr>parameter = ''sodium'', val = JStr ''160'', unit = JStr ''mmol/L'',
         referenceRange = Some \<lparr>normal = Some \<lparr>range_min = JNum (Fin 135), range_max = JNum (Fin 145)\<rparr>,
                                male = None, female = None\<rparr>\<rparr> ?pat"
  have sh: "status ?h = Normal" by code_simp
  have ss: "status ?s = High" by code_simp
  have a: "\<forall>r \<in> set [?h]. status r = Normal" using sh by simp
  have b: "\<not> (\<forall>r \<in> set [?h, ?s]. status r = Normal)" using ss by simp
  from a b sh recommendations_binary [of "[?h]"] recommendations_binary [of "[?h, ?s]"]
  show ?thesis by presburger
qed

lemma identifyCriticalValues_append:
  "identifyCriticalValues (xs @ ys) = identifyCriticalValues xs @ identifyCriticalValues ys"
  by (simp add: identifyCriticalValues_def)

lemma identifyCriticalValues_Cons:
  "identifyCriticalValues (r # rs) =
     (if severity r = SevCritical
      then \<lparr>cv_parameter = parameter r, cv_value = val r, concern = explanation r,
            urgency = ''immediate_attention_required''\<rparr> # identifyCriticalValues rs
      else identifyCriticalValues rs)"
  by (simp add: identifyCriticalValues_def)

text \<open>
  C7, amended. The critical values hold, in the order of the analyzed results, one entry for
  each result of severity \<open>critical\<close> and none for a result of severity \<open>normal\<close> or
  \<open>abnormal\<close>. An entry is a new object: the parameter and the value of the result, its
  explanation under the name \<open>concern\<close>, and the urgency \<open>immediate_attention_required\<close>;
  the unit, the reference range, the status, the severity and the clinical significance
  of the result are not in it.
\<close>

theorem critical_values_entries:
  "identifyCriticalValues [] = [] \<and>
   (severity r = SevCritical \<longrightarrow>
      identifyCriticalValues (xs @ r # ys) =
        identifyCriticalValues xs @
        \<lparr>cv_parameter = parameter r, cv_value = val r, concern = explanation r,
         urgency = ''immediate_attention_required''\<rparr> # identifyCriticalValues ys) \<and>
   (severity r \<in> {SevNormal, SevAbnormal} \<longrightarrow>
      identifyCriticalValues (xs @ r # ys) = identifyCriticalValues xs @ identifyCriticalValues ys) \<and>
   length (identifyCriticalValues rs) = length (filter (\<lambda>r. severity r = SevCritical) rs) \<and>
   (\<forall>i < length (identifyCriticalValues rs).
      identifyCriticalValues rs ! i =
        \<lparr>cv_parameter = parameter (filter (\<lambda>r. severity r = SevCritical) rs ! i),
         cv_value = val (filter (\<lambda>r. severity r = SevCritical) rs ! i),
         concern = explanation (filter (\<lambda>r. severity r = SevCritical) rs ! i),
         urgency = ''immediate_attention_required''\<rparr>)"
proof -
  have a: "identifyCriticalValues [] = []"
    by (simp add: identifyCriticalValues_def)
  have b: "identifyCriticalValues (xs @ r # ys) =
        identifyCriticalValues xs @
        \<lparr>cv_parameter = parameter r, cv_value = val r, concern = explanation r,
         urgency = ''immediate_attention_required''\<rparr> # identifyCriticalValues ys"
    if "severity r = SevCritical"
    using that by (simp add: identifyCriticalValues_append identifyCriticalValues_Cons)
  have c: "identifyCriticalValues (xs @ r # ys) = identifyCriticalValues xs @ identifyCriticalValues ys"
    if "severity r \<in> {SevNormal, SevAbnormal}"
    using that by (auto simp: identifyCriticalValues_append identifyCriticalValues_Cons)
  have d: "length (identifyCriticalValues rs) = length (filter (\<lambda>r. severity r = SevCritical) rs)"
    by (simp add: identifyCriticalValues_def)
  have e: "\<forall>i < length (identifyCriticalValues rs).
      identifyCriticalValues rs ! i =
        \<lparr>cv_parameter = parameter (filter (\<lambda>r. severity r = SevCritical) rs ! i),
         cv_value = val (filter (\<lambda>r. severity r = SevCritical) rs ! i),
         concern = explanation (filter (\<lambda>r. severity r = SevCritical) rs ! i),
         urgency = ''immediate_attention_required''\<rparr>"
    by (simp add: identifyCriticalValues_def)
  from a b c d e show ?thesis by blast
qed

theorem critical_values_entries_witness:
  "identifyCriticalValues
     ([\<lparr>parameter = ''glucose'', val = JStr ''450'', unit = JStr ''mg/dL'', referenceRange = None,
        status = High, explanation = ''first'', severity = SevCritical, clinicalSignificance = []\<rparr>]
      @ \<lparr>parameter = ''sodium'', val = JStr ''150'', unit = JStr ''mmol/L'', referenceRange = None,
          status = High, explanation = ''second'', severity = SevAbnormal, clinicalSignificance = []\<rparr>
      # [\<lparr>parameter = ''potassium'', val = JStr ''2.0'', unit = JStr ''mmol/L'', referenceRange = None,
          status = Low, explanation = ''third'', severity = SevCritical, clinicalSignificance = []\<rparr>])
     = [\<lparr>cv_parameter = ''glucose'', cv_value = JStr ''450'', concern = ''first'',
         urgency = ''immediate_attention_required''\<rparr>,
        \<lparr>cv_parameter = ''potassium'', cv_value = JStr ''2.0'', concern = ''third'',
         urgency = ''immediate_attention_required''\<rparr>]"
proof -
  let ?g = "\<lparr>parameter = ''glucose'', val = JStr ''450'', unit = JStr ''mg/dL'', referenceRange = None,
        status = High, explanation = ''first'', severity = SevCritical, clinicalSignificance = []\<rparr>"
  let ?s = "\<lparr>parameter = ''sodium'', val = JStr ''150'', unit = JStr ''mmol/L'', referenceRange = None,
          status = High, explanation = ''second'', severity = SevAbnormal, clinicalSignificance = []\<rparr>"
  let ?p = "\<lparr>parameter = ''potassium'', val = JStr ''2.0'', unit = JStr ''mmol/L'', referenceRange = None,
          status = Low, explanation = ''third'', severity = SevCritical, clinicalSignificance = []\<rparr>"
  note nil = critical_values_entries [THEN conjunct1]
  note crit = critical_values_entries [THEN conjunct2, THEN conjunct1, rule_format]
  note drop = critical_values_entries [THEN conjunct2, THEN conjunct2, THEN conjunct1, rule_format]
  have sg: "severity ?g = SevCritical" by simp
  have ss: "severity ?s \<in> {SevNormal, SevAbnormal}" by simp
  have sp: "severity ?p = SevCritical" by simp
  have g: "identifyCriticalValues [?g] =
             [\<lparr>cv_parameter = ''glucose'', cv_value = JStr ''450'', concern = ''first'',
               urgency = ''immediate_attention_required''\<rparr>]"
    using crit [OF sg, of "[]" "[]"] by (simp add: nil)
  have p: "identifyCriticalValues [?p] =
             [\<lparr>cv_parameter = ''potassium'', cv_value = JStr ''2.0'', concern = ''third'',
               urgency = ''immediate_attention_required''\<rparr>]"
    using crit [OF sp, of "[]" "[]"] by (simp add: nil)
  show ?thesis
    unfolding drop [OF ss, of "[?g]" "[?p]"] g p by simp
qed

text \<open>
  C7 as stated has the analyzed results themselves in the output, annotated. Two critical
  results that differ in unit and reference range give the same output, so the output does
  not hold the results.
\<close>

theorem critical_values_projection_counterexample:
  "\<lparr>parameter = ''glucose'', val = JStr ''450'', unit = JStr ''mg/dL'',
     referenceRange = Some \<lparr>normal = Some \<lparr>range_min = JNum (Fin 70), range_max = JNum (Fin 99)\<rparr>,
                            male = None, female = None\<rparr>,
     status = High, explanation = ''e'', severity = SevCritical,
     clinicalSignificance = ''May indicate diabetes or prediabetes''\<rparr>
   \<noteq>
   \<lparr>parameter = ''glucose'', val = JStr ''450'', unit = JStr ''mg/100mL'',
     referenceRange = Some \<lparr>normal = Some \<lparr>range_min = JNum (Fin 70), range_max = JNum (Fin 140)\<rparr>,
                            male = None, female = None\<rparr>,
     status = High, explanation = ''e'', severity = SevCritical,
     clinicalSignificance = ''May indicate diabetes or prediabetes''\<rparr> \<and>
   severity (\<lparr>parameter = ''glucose'', val = JStr ''450'', unit = JStr ''mg/dL'',
     referenceRange = Some \<lparr>normal = Some \<lparr>range_min = JNum (Fin 70), range_max = JNum (Fin 99)\<rparr>,
                            male = None, female = None\<rparr>,
     status = High, explanation = ''e'', severity = SevCritical,
     clinicalSignificance = ''May indicate diabetes or prediabetes''\<rparr>) = SevCritical \<and>
   severity (\<lparr>parameter = ''glucose'', val = JStr ''450'', unit = JStr ''mg/100mL'',
     referenceRange = Some \<lparr>normal = Some \<lparr>range_min = JNum (Fin 70), range_max = JNum (Fin 140)\<rparr>,
                            male = None, female = None\<rparr>,
     status = High, explanation = ''e'', severity = SevCritical,
     clinicalSignificance = ''May indicate diabetes or prediabetes''\<rparr>) = SevCritical \<and>
   identifyCriticalValues
     [\<lparr>parameter = ''glucose'', val = JStr ''450'', unit = JStr ''mg/dL'',
     referenceRange = Some \<lparr>normal = Some \<lparr>range_min = JNum (Fin 70), range_max = JNum (Fin 99)\<rparr>,
                            male = None, female = None\<rparr>,
     status = High, explanation = ''e'', severity = SevCritical,
     clinicalSignificance = ''May indicate diabetes or prediabetes''\<rparr>]
   = identifyCriticalValues
     [\<lparr>parameter = ''glucose'', val = JStr ''450'', unit = JStr ''mg/100mL'',
     referenceRange = Some \<lparr>normal = Some \<lparr>range_min = JNum (Fin 70), range_max = JNum (Fin 140)\<rparr>,
                            male = None, female = None\<rparr>,
     status = High, explanation = ''e'', severity = SevCritical,
     clinicalSignificance = ''May indicate diabetes or prediabetes''\<rparr>]"
  by (simp add: identifyCriticalValues_def)

subsection \<open>Risk score\<close>



text \<open>
  The double arithmetic shows at a tie: 87 points out of 600 are exactly 14.5 percent,
  which rounds up to 15; the doubles give 14.499999999999998, and the score is 14.
\<close>

lemma risk_score_double_rounding:
  "Math_round (js_mul (js_div (Fin 87) (Fin 600)) (Fin 100)) = Fin 14 \<and>
   \<lfloor>(87 :: rat) / 600 * 100 + 1 / 2\<rfloor> = 15"
  by code_simp

text \<open>
  C3. On the empty sequence the claim asks for the score \<open>0\<close>. The source divides \<open>0\<close> by
  \<open>0\<close>: the score is NaN.
\<close>

theorem calculateRiskScore_empty: "calculateRiskScore [] = NaN"
  by (simp add: calculateRiskScore_def)

text \<open>The first scenario of the specification: glucose 450 against 70 to 99.\<close>

lemma end_to_end_glucose:
  "status (analyzeSingleResult explain
      \<lparr>parameter = ''glucose'', val = JStr ''450'', unit = JStr ''mg/dL'',
       referenceRange = Some \<lparr>normal = Some \<lparr>range_min = JNum (Fin 70), range_max = JNum (Fin 99)\<rparr>,
                              male = None, female = None\<rparr>\<rparr>
      \<lparr>age = JNum (Fin 45), gender = Some ''male''\<rparr>) = High \<and>
   severity (analyzeSingleResult explain
      \<lparr>parameter = ''glucose'', val = JStr ''450'', unit = JStr ''mg/dL'',
       referenceRange = Some \<lparr>normal = Some \<lparr>range_min = JNum (Fin 70), range_max = JNum (Fin 99)\<rparr>,
                              male = None, female = None\<rparr>\<rparr>
      \<lparr>age = JNum (Fin 45), gender = Some ''male''\<rparr>) = SevCritical \<and>
   calculateRiskScore [analyzeSingleResult explain
      \<lparr>parameter = ''glucose'', val = JStr ''450'', unit = JStr ''mg/dL'',
       referenceRange = Some \<lparr>normal = Some \<lparr>range_min = JNum (Fin 70), range_max = JNum (Fin 99)\<rparr>,
                              male = None, female = None\<rparr>\<rparr>
      \<lparr>age = JNum (Fin 45), gender = Some ''male''\<rparr>] = Fin 100"
  by code_simp





end
